theory Spec2Isabelle
  imports Complex_Main
begin

section \<open>The abstract turbulence model of DATurbulenceModel.H\<close>

text \<open>
  The header declares the class \<open>DATurbulenceModel\<close>. Most of its member functions are
  pure virtual or are only declared there; the members with a body in the header are the
  accessors, of which \<open>prt()\<close> is the one that can fail.

  OpenFOAM's \<open>word\<close> is a string without white space and \<open>scalar\<close> is a floating-point
  number. \<open>prt()\<close> only compares a scalar with zero and hands it back unchanged: no
  arithmetic is done on it, so the reals stand for the scalars here (a NaN compares false
  with \<open>> 0\<close> and so takes the same branch as a non-positive number).

  Isabelle keeps names that end in an underscore for itself, so the data members
  \<open>Prt_\<close>, \<open>kMin_\<close>, ... are written without it.
\<close>

type_synonym word = string

type_synonym scalar = real

text \<open>
  The scalar and word data members of the class (lines 94 to 119 of the header): the
  model type, the lower limits of k, epsilon, omega and nuTilda, and the two Prandtl
  numbers.
\<close>

record DATurbulenceModel =
  turbModelType :: word
  kMin :: scalar
  epsilonMin :: scalar
  omegaMin :: scalar
  nuTildaMin :: scalar
  Pr :: scalar
  Prt :: scalar

text \<open>
  The in-class initialisers: \<open>word turbModelType_ = "None"\<close> and
  \<open>scalar Prt_ = -9999.0\<close>. A model whose turbulent Prandtl number was never resolved
  still holds \<open>Prt_unset\<close>.
\<close>

definition Prt_unset :: scalar where
  "Prt_unset = - 9999"

text \<open>
  \<open>FatalErrorIn(functionName) << exit(FatalError)\<close> prints the error with the function
  name it was given and ends the run (or throws, when OpenFOAM is told to throw): control
  never comes back to the statement after it. A call that ends this way is the value
  \<open>Inl (FatalError functionName)\<close>.
\<close>

datatype error = FatalError word

definition FatalErrorIn_exit :: "word \<Rightarrow> error + unit" where
  "FatalErrorIn_exit functionName = Inl (FatalError functionName)"

text \<open>Sequencing of two statements: the second runs only if the first came back.\<close>

definition andThen :: "error + unit \<Rightarrow> error + 'a \<Rightarrow> error + 'a" where
  "andThen stmt rest = (case stmt of Inl e \<Rightarrow> Inl e | Inr u \<Rightarrow> rest)"

text \<open>
  \<^verbatim>\<open>
  scalar prt()
  {
      if (Prt_ > 0) { return Prt_; }
      else
      {
          // alphat not found in Db so Prt is not set
          FatalErrorIn("getPrt") << exit(FatalError);
          return -9999.0;
      }
  }
  \<close>
\<close>

definition prt :: "DATurbulenceModel \<Rightarrow> error + scalar" where
  "prt m =
     (if Prt m > 0 then Inr (Prt m)
      else andThen (FatalErrorIn_exit ''getPrt'') (Inr (- 9999)))"

text \<open>\<open>word getTurbModelType() const { return turbModelType_; }\<close>\<close>

definition getTurbModelType :: "DATurbulenceModel \<Rightarrow> word" where
  "getTurbModelType m = turbModelType m"

text \<open>A model to evaluate the accessors on: everything fixed but the turbulent Prandtl number.\<close>

definition exampleModel :: "scalar \<Rightarrow> DATurbulenceModel" where
  "exampleModel p =
     \<lparr>turbModelType = ''incompressible'', kMin = 1 / 10 ^ 15, epsilonMin = 1 / 10 ^ 15,
      omegaMin = 1 / 10 ^ 15, nuTildaMin = 1 / 10 ^ 15, Pr = 7 / 10, Prt = p\<rparr>"


section \<open>Properties of the accessor prt\<close>

lemma exampleModel_Prt [simp]: "Prt (exampleModel p) = p"
  by (simp add: exampleModel_def)

lemma exampleModel_Prt_update: "(exampleModel p)\<lparr>Prt := q\<rparr> = exampleModel q"
  by (simp add: exampleModel_def)

lemma prt_positive: "0 < Prt m \<Longrightarrow> prt m = Inr (Prt m)"
  by (simp add: prt_def)

lemma prt_not_positive: "\<not> 0 < Prt m \<Longrightarrow> prt m = Inl (FatalError ''getPrt'')"
  by (simp add: prt_def andThen_def FatalErrorIn_exit_def)

text \<open>
  Claim C3. A model whose turbulent Prandtl number was never resolved still holds the
  initial value -9999.0. Asking such a model for the number ends in the fatal error raised
  under the name "getPrt"; and whatever the model holds, \<open>prt\<close> never hands the value
  -9999.0 back to its caller: the \<open>return -9999.0\<close> after the fatal error is never reached.
\<close>

theorem prt_unset_is_fatal:
  "prt (m\<lparr>Prt := Prt_unset\<rparr>) = Inl (FatalError ''getPrt'') \<and> prt m \<noteq> Inr Prt_unset"
proof
  show "prt (m\<lparr>Prt := Prt_unset\<rparr>) = Inl (FatalError ''getPrt'')"
    by (rule prt_not_positive) (simp add: Prt_unset_def)
next
  show "prt m \<noteq> Inr Prt_unset"
  proof (cases "0 < Prt m")
    case True
    then have "prt m = Inr (Prt m)" by (rule prt_positive)
    moreover from True have "Prt m \<noteq> Prt_unset" by (simp add: Prt_unset_def)
    ultimately show ?thesis by simp
  next
    case False
    then have "prt m = Inl (FatalError ''getPrt'')" by (rule prt_not_positive)
    then show ?thesis by simp
  qed
qed

text \<open>
  Claim C9. \<open>prt\<close> tests that the stored number is positive, not that it was set: it
  returns a value exactly when the stored number is greater than zero, and then it is the
  stored number; it takes the fatal branch exactly when the stored number is zero or
  negative; so a model configured with a turbulent Prandtl number of zero or below
  answers as the model that still holds the initial -9999.0 does.
\<close>

theorem prt_tests_positivity:
  "(prt m = Inr v) = (0 < Prt m \<and> v = Prt m) \<and>
   (prt m = Inl e) = (Prt m \<le> 0 \<and> e = FatalError ''getPrt'') \<and>
   prt m = (if 0 < Prt m then Inr (Prt m) else prt (m\<lparr>Prt := Prt_unset\<rparr>))"
proof (cases "0 < Prt m")
  case True
  then have "prt m = Inr (Prt m)" by (rule prt_positive)
  with True show ?thesis by auto
next
  case False
  then have "prt m = Inl (FatalError ''getPrt'')" by (rule prt_not_positive)
  moreover have "prt (m\<lparr>Prt := Prt_unset\<rparr>) = Inl (FatalError ''getPrt'')"
    by (rule prt_not_positive) (simp add: Prt_unset_def)
  ultimately show ?thesis using False by auto
qed

text \<open>
  The same at three stored numbers: 0.85 is returned, while zero and -1 end as the
  unset model does.
\<close>

theorem prt_tests_positivity_witness:
  "prt (exampleModel (85 / 100)) = Inr (85 / 100) \<and>
   prt (exampleModel 0) = Inl (FatalError ''getPrt'') \<and>
   prt (exampleModel (- 1)) = prt (exampleModel Prt_unset)"
proof -
  have "prt (exampleModel (85 / 100)) = Inr (85 / 100)"
    using prt_tests_positivity [of "exampleModel (85 / 100)" "85 / 100"] by simp
  moreover have "prt (exampleModel 0) = Inl (FatalError ''getPrt'')"
    using prt_tests_positivity [of "exampleModel 0" 0 "FatalError ''getPrt''"] by simp
  moreover have "prt (exampleModel (- 1)) = prt (exampleModel Prt_unset)"
    using prt_tests_positivity [of "exampleModel (- 1)"] by (simp add: exampleModel_Prt_update)
  ultimately show ?thesis by simp
qed

end
